theory Spec2Isabelle
  imports Main "HOL-Library.Word"
begin

unbundle bit_operations_syntax

section \<open>The MySensors message format (core/MyMessage.h)\<close>

text \<open>
  The header file declares the wire format of a MySensors message: seven header bytes, two
  of which multiplex sub-byte fields through the \<open>BF_GET\<close>/\<open>BF_SET\<close> macro family,
  followed by a payload union of \<open>MAX_PAYLOAD + 1\<close> bytes.  The member functions of the
  class \<open>MyMessage\<close> are only declared there; their bodies live in MyMessage.cpp.
\<close>

subsection \<open>Constants and enumerations\<close>

type_synonym u8 = "8 word"
type_synonym u16 = "16 word"
type_synonym u32 = "32 word"

definition PROTOCOL_VERSION :: int where
  "PROTOCOL_VERSION = 2"

definition MAX_MESSAGE_LENGTH :: nat where
  "MAX_MESSAGE_LENGTH = 32"

definition HEADER_SIZE :: nat where
  "HEADER_SIZE = 7"

definition MAX_PAYLOAD :: nat where
  "MAX_PAYLOAD = MAX_MESSAGE_LENGTH - HEADER_SIZE"

datatype mysensor_command = C_PRESENTATION | C_SET | C_REQ | C_INTERNAL | C_STREAM

text \<open>The enumerators carry explicit values 0 to 4 in the header.\<close>

fun command_value :: "mysensor_command \<Rightarrow> int" where
  "command_value C_PRESENTATION = 0"
| "command_value C_SET = 1"
| "command_value C_REQ = 2"
| "command_value C_INTERNAL = 3"
| "command_value C_STREAM = 4"

datatype mysensor_payload =
  P_STRING | P_BYTE | P_INT16 | P_UINT16 | P_LONG32 | P_ULONG32 | P_CUSTOM | P_FLOAT32

text \<open>No enumerator has an initialiser, so C numbers them 0, 1, 2, ... in order.\<close>

fun payload_value :: "mysensor_payload \<Rightarrow> int" where
  "payload_value P_STRING = 0"
| "payload_value P_BYTE = 1"
| "payload_value P_INT16 = 2"
| "payload_value P_UINT16 = 3"
| "payload_value P_LONG32 = 4"
| "payload_value P_ULONG32 = 5"
| "payload_value P_CUSTOM = 6"
| "payload_value P_FLOAT32 = 7"

subsection \<open>The bit-field macros\<close>

text \<open>
  The macros are untyped.  Every use in the header applies them to a \<open>uint8_t\<close> container
  \<open>y\<close>, which C promotes to \<open>int\<close> before any operator is applied; the literal \<open>1\<close> of
  \<open>BIT\<close> is an \<open>int\<close> as well.  The model therefore computes in \<open>int\<close> with its
  two's-complement bit operations, reads the container with \<open>uint\<close>, and converts back to
  eight bits with \<open>word_of_int\<close> where \<open>BF_SET\<close> assigns to \<open>y\<close>.  C's \<open>int\<close> has at
  least 16 bits; for a field inside the byte (\<open>start + len \<le> 8\<close>) every intermediate value
  lies between \<open>-256\<close> and \<open>255\<close>, so the unbounded \<open>int\<close> of HOL computes exactly what
  the C expression does.
\<close>

definition BIT :: "nat \<Rightarrow> int" where
  "BIT n = push_bit n 1"

definition BIT_MASK :: "nat \<Rightarrow> int" where
  "BIT_MASK len = BIT len - 1"

definition BF_MASK :: "nat \<Rightarrow> nat \<Rightarrow> int" where
  "BF_MASK start len = push_bit start (BIT_MASK len)"

definition BF_PREP :: "int \<Rightarrow> nat \<Rightarrow> nat \<Rightarrow> int" where
  "BF_PREP x start len = push_bit start (x AND BIT_MASK len)"

definition BF_GET :: "u8 \<Rightarrow> nat \<Rightarrow> nat \<Rightarrow> int" where
  "BF_GET y start len = drop_bit start (uint y) AND BIT_MASK len"

text \<open>\<open>BF_SET\<close> is an assignment to \<open>y\<close>; the model returns the new value of \<open>y\<close>.\<close>

definition BF_SET :: "u8 \<Rightarrow> int \<Rightarrow> nat \<Rightarrow> nat \<Rightarrow> u8" where
  "BF_SET y x start len =
     word_of_int ((uint y AND NOT (BF_MASK start len)) OR BF_PREP x start len)"

subsection \<open>The message structure\<close>

text \<open>
  The field \<open>last\<close> is called \<open>last_node\<close> here and \<open>type\<close> is called \<open>type_m\<close>.  The
  anonymous payload union is the byte array \<open>data\<close>; its other members are views of the
  same bytes and are modelled by the access functions further down.
\<close>

record MyMessage =
  last_node :: u8
  sender :: u8
  destination :: u8
  version_length :: u8
  command_ack_payload :: u8
  type_m :: u8
  sensor :: u8
  data :: "u8 list"

subsection \<open>Getters and setters for the header bit fields\<close>

definition mSetVersion :: "MyMessage \<Rightarrow> int \<Rightarrow> MyMessage" where
  "mSetVersion msg v = msg\<lparr>version_length := BF_SET (version_length msg) v 0 2\<rparr>"

definition mGetVersion :: "MyMessage \<Rightarrow> int" where
  "mGetVersion msg = BF_GET (version_length msg) 0 2"

definition mSetSigned :: "MyMessage \<Rightarrow> int \<Rightarrow> MyMessage" where
  "mSetSigned msg s = msg\<lparr>version_length := BF_SET (version_length msg) s 2 1\<rparr>"

definition mGetSigned :: "MyMessage \<Rightarrow> int" where
  "mGetSigned msg = BF_GET (version_length msg) 2 1"

definition mSetLength :: "MyMessage \<Rightarrow> int \<Rightarrow> MyMessage" where
  "mSetLength msg l = msg\<lparr>version_length := BF_SET (version_length msg) l 3 5\<rparr>"

definition mGetLength :: "MyMessage \<Rightarrow> int" where
  "mGetLength msg = BF_GET (version_length msg) 3 5"

definition mSetCommand :: "MyMessage \<Rightarrow> int \<Rightarrow> MyMessage" where
  "mSetCommand msg c = msg\<lparr>command_ack_payload := BF_SET (command_ack_payload msg) c 0 3\<rparr>"

definition mGetCommand :: "MyMessage \<Rightarrow> int" where
  "mGetCommand msg = BF_GET (command_ack_payload msg) 0 3"

definition mSetRequestAck :: "MyMessage \<Rightarrow> int \<Rightarrow> MyMessage" where
  "mSetRequestAck msg r = msg\<lparr>command_ack_payload := BF_SET (command_ack_payload msg) r 3 1\<rparr>"

definition mGetRequestAck :: "MyMessage \<Rightarrow> int" where
  "mGetRequestAck msg = BF_GET (command_ack_payload msg) 3 1"

definition mSetAck :: "MyMessage \<Rightarrow> int \<Rightarrow> MyMessage" where
  "mSetAck msg a = msg\<lparr>command_ack_payload := BF_SET (command_ack_payload msg) a 4 1\<rparr>"

definition mGetAck :: "MyMessage \<Rightarrow> int" where
  "mGetAck msg = BF_GET (command_ack_payload msg) 4 1"

definition mSetPayloadType :: "MyMessage \<Rightarrow> int \<Rightarrow> MyMessage" where
  "mSetPayloadType msg pt = msg\<lparr>command_ack_payload := BF_SET (command_ack_payload msg) pt 5 3\<rparr>"

definition mGetPayloadType :: "MyMessage \<Rightarrow> int" where
  "mGetPayloadType msg = BF_GET (command_ack_payload msg) 5 3"

text \<open>
  The internal variants act on the members of the enclosing object; the object is the
  explicit last argument here.
\<close>

definition miGetCommand :: "MyMessage \<Rightarrow> int" where
  "miGetCommand this = BF_GET (command_ack_payload this) 0 3"

definition miSetLength :: "int \<Rightarrow> MyMessage \<Rightarrow> MyMessage" where
  "miSetLength l this = this\<lparr>version_length := BF_SET (version_length this) l 3 5\<rparr>"

definition miGetLength :: "MyMessage \<Rightarrow> int" where
  "miGetLength this = BF_GET (version_length this) 3 5"

definition miSetRequestAck :: "int \<Rightarrow> MyMessage \<Rightarrow> MyMessage" where
  "miSetRequestAck r this =
     this\<lparr>command_ack_payload := BF_SET (command_ack_payload this) r 3 1\<rparr>"

definition miGetRequestAck :: "MyMessage \<Rightarrow> int" where
  "miGetRequestAck this = BF_GET (command_ack_payload this) 3 1"

definition miSetAck :: "int \<Rightarrow> MyMessage \<Rightarrow> MyMessage" where
  "miSetAck a this = this\<lparr>command_ack_payload := BF_SET (command_ack_payload this) a 4 1\<rparr>"

definition miGetAck :: "MyMessage \<Rightarrow> int" where
  "miGetAck this = BF_GET (command_ack_payload this) 4 1"

definition miSetPayloadType :: "int \<Rightarrow> MyMessage \<Rightarrow> MyMessage" where
  "miSetPayloadType pt this =
     this\<lparr>command_ack_payload := BF_SET (command_ack_payload this) pt 5 3\<rparr>"

definition miGetPayloadType :: "MyMessage \<Rightarrow> int" where
  "miGetPayloadType this = BF_GET (command_ack_payload this) 5 3"

subsection \<open>The payload union\<close>

text \<open>
  The union overlays \<open>bValue\<close>, \<open>uiValue\<close>, \<open>iValue\<close>, \<open>ulValue\<close>, \<open>lValue\<close>, the pair
  \<open>fValue\<close>/\<open>fPrecision\<close>, the pair \<open>version\<close>/\<open>sensorType\<close> and \<open>data\<close> on the same
  packed bytes.  A member is read and written through the bytes of \<open>data\<close> it occupies.
  The header does not fix the byte order of the multi-byte members (it is the one of the
  target), so the order is a parameter of the model.  Signed members are words as well; only
  \<open>sint\<close> instead of \<open>uint\<close> reads them differently.  A \<open>float\<close> is represented by its
  32-bit pattern: the message format stores and reloads it and never computes with it.
\<close>

datatype byte_order = LittleEndian | BigEndian

type_synonym i16 = "16 word"
type_synonym i32 = "32 word"
type_synonym float32 = "32 word"

fun word_bytes :: "nat \<Rightarrow> 'a::len word \<Rightarrow> u8 list" where
  "word_bytes 0 w = []"
| "word_bytes (Suc n) w = ucast w # word_bytes n (drop_bit 8 w)"

fun bytes_word :: "u8 list \<Rightarrow> 'a::len word" where
  "bytes_word [] = 0"
| "bytes_word (b # bs) = ucast b OR push_bit 8 (bytes_word bs)"

definition native_bytes :: "byte_order \<Rightarrow> nat \<Rightarrow> 'a::len word \<Rightarrow> u8 list" where
  "native_bytes bo n w =
     (case bo of LittleEndian \<Rightarrow> word_bytes n w | BigEndian \<Rightarrow> rev (word_bytes n w))"

definition native_word :: "byte_order \<Rightarrow> u8 list \<Rightarrow> 'a::len word" where
  "native_word bo bs =
     (case bo of LittleEndian \<Rightarrow> bytes_word bs | BigEndian \<Rightarrow> bytes_word (rev bs))"

text \<open>
  Overwriting the bytes of a region from offset \<open>off\<close> on, and reading \<open>n\<close> bytes from
  there.  On the \<open>MAX_PAYLOAD + 1\<close> bytes of \<open>data\<close> a write that fits leaves the size of
  the region as it is.
\<close>

definition write_at :: "nat \<Rightarrow> u8 list \<Rightarrow> u8 list \<Rightarrow> u8 list" where
  "write_at off bs region = take off region @ bs @ drop (off + length bs) region"

definition read_at :: "nat \<Rightarrow> nat \<Rightarrow> u8 list \<Rightarrow> u8 list" where
  "read_at off n region = take n (drop off region)"

definition put_bValue :: "u8 \<Rightarrow> MyMessage \<Rightarrow> MyMessage" where
  "put_bValue v this = this\<lparr>data := write_at 0 [v] (data this)\<rparr>"

definition get_bValue :: "MyMessage \<Rightarrow> u8" where
  "get_bValue this = bytes_word (read_at 0 1 (data this))"

definition put_uiValue :: "byte_order \<Rightarrow> u16 \<Rightarrow> MyMessage \<Rightarrow> MyMessage" where
  "put_uiValue bo v this = this\<lparr>data := write_at 0 (native_bytes bo 2 v) (data this)\<rparr>"

definition get_uiValue :: "byte_order \<Rightarrow> MyMessage \<Rightarrow> u16" where
  "get_uiValue bo this = native_word bo (read_at 0 2 (data this))"

definition put_iValue :: "byte_order \<Rightarrow> i16 \<Rightarrow> MyMessage \<Rightarrow> MyMessage" where
  "put_iValue bo v this = this\<lparr>data := write_at 0 (native_bytes bo 2 v) (data this)\<rparr>"

definition get_iValue :: "byte_order \<Rightarrow> MyMessage \<Rightarrow> i16" where
  "get_iValue bo this = native_word bo (read_at 0 2 (data this))"

definition put_ulValue :: "byte_order \<Rightarrow> u32 \<Rightarrow> MyMessage \<Rightarrow> MyMessage" where
  "put_ulValue bo v this = this\<lparr>data := write_at 0 (native_bytes bo 4 v) (data this)\<rparr>"

definition get_ulValue :: "byte_order \<Rightarrow> MyMessage \<Rightarrow> u32" where
  "get_ulValue bo this = native_word bo (read_at 0 4 (data this))"

definition put_lValue :: "byte_order \<Rightarrow> i32 \<Rightarrow> MyMessage \<Rightarrow> MyMessage" where
  "put_lValue bo v this = this\<lparr>data := write_at 0 (native_bytes bo 4 v) (data this)\<rparr>"

definition get_lValue :: "byte_order \<Rightarrow> MyMessage \<Rightarrow> i32" where
  "get_lValue bo this = native_word bo (read_at 0 4 (data this))"

definition put_fValue :: "byte_order \<Rightarrow> float32 \<Rightarrow> MyMessage \<Rightarrow> MyMessage" where
  "put_fValue bo v this = this\<lparr>data := write_at 0 (native_bytes bo 4 v) (data this)\<rparr>"

definition get_fValue :: "byte_order \<Rightarrow> MyMessage \<Rightarrow> float32" where
  "get_fValue bo this = native_word bo (read_at 0 4 (data this))"

definition put_fPrecision :: "u8 \<Rightarrow> MyMessage \<Rightarrow> MyMessage" where
  "put_fPrecision v this = this\<lparr>data := write_at 4 [v] (data this)\<rparr>"

definition get_fPrecision :: "MyMessage \<Rightarrow> u8" where
  "get_fPrecision this = bytes_word (read_at 4 1 (data this))"

subsection \<open>The member functions of the class\<close>

text \<open>
  MyMessage.h only declares the constructors, the payload setters and getters, \<open>getCommand\<close>,
  \<open>isAck\<close>, \<open>i2h\<close> and \<open>getStream\<close>.  Their bodies are modelled from the specification,
  on top of the macros and the union of the header.
\<close>

text \<open>Modelled from the spec: the body of the constructor \<open>MyMessage()\<close> is missing; section
  4.3 says "Construct default (all-zero fields)".\<close>

definition MyMessage_default :: MyMessage where
  "MyMessage_default =
     \<lparr>last_node = 0, sender = 0, destination = 0, version_length = 0,
      command_ack_payload = 0, type_m = 0, sensor = 0,
      data = replicate (MAX_PAYLOAD + 1) 0\<rparr>"

text \<open>Modelled from the spec: the body of the constructor \<open>MyMessage(sensor, type)\<close> is
  missing; section 4.3 says "construct with (sensor, type) pre-set; command defaults to the
  "set" command and payloadType defaults to string".  The remaining fields are zero as in
  the default constructor.\<close>

definition MyMessage_init :: "u8 \<Rightarrow> u8 \<Rightarrow> MyMessage" where
  "MyMessage_init s t =
     miSetPayloadType (payload_value P_STRING)
       (mSetCommand (MyMessage_default\<lparr>sensor := s, type_m := t\<rparr>) (command_value C_SET))"

text \<open>Modelled from the spec: the body of \<open>getCommand\<close> is missing; section 4.3 says
  "getCommand() extracts the 3-bit command sub-field".  The declared result type is
  \<open>uint8_t\<close>.\<close>

definition getCommand :: "MyMessage \<Rightarrow> u8" where
  "getCommand this = word_of_int (miGetCommand this)"

text \<open>Modelled from the spec: the body of \<open>isAck\<close> is missing; section 4.3 says "isAck()
  extracts the 1-bit ack-flag sub-field".  The declared result type is \<open>bool\<close>, so the
  extracted integer is converted as C does (nonzero is true).\<close>

definition isAck :: "MyMessage \<Rightarrow> bool" where
  "isAck this = (miGetAck this \<noteq> 0)"

text \<open>Modelled from the spec: the bodies of the \<open>set\<close> overloads are missing; section 4.2
  says that writing a typed value "stores the value's native byte pattern into the region,
  sets payloadType to match, and sets length to the representation's byte width (4 for
  32-bit forms, 2 for 16-bit, 1 for byte/bool, the string's character count for
  string/custom)".  The overloads are named after their argument types.  The first one is
  \<open>set(void* payload, uint8_t length)\<close>: the buffer is the list \<open>payload\<close>, of which
  \<open>length\<close> bytes are copied.  The region is "a fixed-capacity byte region (25 bytes + 1
  byte reserved for a non-transmitted terminator)" (section 4.2), the payload is "up to 25
  bytes" with "length <= 25 always" (section 3), and every operation is total (section 7):
  so at most \<open>MAX_PAYLOAD\<close> bytes are stored, and the length field counts the bytes
  stored.\<close>

definition set_custom :: "u8 list \<Rightarrow> u8 \<Rightarrow> MyMessage \<Rightarrow> MyMessage" where
  "set_custom payload len this =
     (let n = min (unat len) MAX_PAYLOAD in
      miSetLength (int n)
        (miSetPayloadType (payload_value P_CUSTOM)
          (this\<lparr>data := write_at 0 (take n payload) (data this)\<rparr>)))"

text \<open>Modelled from the spec: \<open>set(const char* value)\<close>; section 4.2 describes the string
  form as "raw bytes, terminator appended locally but never sent", with the character
  count as length.  As for the custom form, the region holds at most \<open>MAX_PAYLOAD\<close>
  characters (sections 3 and 4.2), followed by the terminator in the byte reserved for it;
  the length field counts the characters stored.\<close>

definition set_string :: "string \<Rightarrow> MyMessage \<Rightarrow> MyMessage" where
  "set_string v this =
     (let n = min (length v) MAX_PAYLOAD in
      miSetLength (int n)
        (miSetPayloadType (payload_value P_STRING)
          (this\<lparr>data := write_at 0 (map of_char (take n v) @ [0]) (data this)\<rparr>)))"

text \<open>Modelled from the spec: \<open>set(float value, uint8_t decimals)\<close>; section 4.2: "32-bit
  floating point paired with an 8-bit decimal-precision byte used only when rendering to
  text", byte width 4.\<close>

definition set_float :: "byte_order \<Rightarrow> float32 \<Rightarrow> u8 \<Rightarrow> MyMessage \<Rightarrow> MyMessage" where
  "set_float bo v decimals this =
     miSetLength 4
       (miSetPayloadType (payload_value P_FLOAT32)
         (put_fPrecision decimals (put_fValue bo v this)))"

text \<open>Modelled from the spec: \<open>set(bool value)\<close>; section 4.2: byte width "1 for byte/bool".
  A \<open>bool\<close> converts to the byte 1 or 0, and the tag that matches a single byte is
  \<open>P_BYTE\<close>.\<close>

definition set_bool :: "bool \<Rightarrow> MyMessage \<Rightarrow> MyMessage" where
  "set_bool v this =
     miSetLength 1
       (miSetPayloadType (payload_value P_BYTE)
         (put_bValue (if v then 1 else 0) this))"

text \<open>Modelled from the spec: \<open>set(uint8_t value)\<close>; section 4.2: "single unsigned byte",
  byte width 1.\<close>

definition set_byte :: "u8 \<Rightarrow> MyMessage \<Rightarrow> MyMessage" where
  "set_byte v this =
     miSetLength 1 (miSetPayloadType (payload_value P_BYTE) (put_bValue v this))"

text \<open>Modelled from the spec: \<open>set(uint32_t value)\<close>; section 4.2: "unsigned 32-bit", byte
  width 4.\<close>

definition set_ulong :: "byte_order \<Rightarrow> u32 \<Rightarrow> MyMessage \<Rightarrow> MyMessage" where
  "set_ulong bo v this =
     miSetLength 4 (miSetPayloadType (payload_value P_ULONG32) (put_ulValue bo v this))"

text \<open>Modelled from the spec: \<open>set(int32_t value)\<close>; section 4.2: "signed 32-bit", byte
  width 4.\<close>

definition set_long :: "byte_order \<Rightarrow> i32 \<Rightarrow> MyMessage \<Rightarrow> MyMessage" where
  "set_long bo v this =
     miSetLength 4 (miSetPayloadType (payload_value P_LONG32) (put_lValue bo v this))"

text \<open>Modelled from the spec: \<open>set(uint16_t value)\<close>; section 4.2: "unsigned 16-bit", byte
  width 2.\<close>

definition set_uint :: "byte_order \<Rightarrow> u16 \<Rightarrow> MyMessage \<Rightarrow> MyMessage" where
  "set_uint bo v this =
     miSetLength 2 (miSetPayloadType (payload_value P_UINT16) (put_uiValue bo v this))"

text \<open>Modelled from the spec: \<open>set(int16_t value)\<close>; section 4.2: "signed 16-bit", byte
  width 2.\<close>

definition set_int :: "byte_order \<Rightarrow> i16 \<Rightarrow> MyMessage \<Rightarrow> MyMessage" where
  "set_int bo v this =
     miSetLength 2 (miSetPayloadType (payload_value P_INT16) (put_iValue bo v this))"

text \<open>Modelled from the spec: the bodies of the typed getters are missing; section 4.2 says
  "Reading: reinterprets the stored bytes as requested; ... none validate that payloadType
  matches the accessor used".  \<open>getBool\<close> converts the stored byte to \<open>bool\<close>.\<close>

definition getBool :: "MyMessage \<Rightarrow> bool" where
  "getBool this = (get_bValue this \<noteq> 0)"

text \<open>Modelled from the spec: \<open>getByte\<close> reinterprets the stored bytes as the single
  unsigned byte.\<close>

definition getByte :: "MyMessage \<Rightarrow> u8" where
  "getByte this = get_bValue this"

text \<open>Modelled from the spec: \<open>getFloat\<close> reinterprets the stored bytes as the 32-bit
  floating-point member.\<close>

definition getFloat :: "byte_order \<Rightarrow> MyMessage \<Rightarrow> float32" where
  "getFloat bo this = get_fValue bo this"

text \<open>Modelled from the spec: \<open>getInt\<close> reinterprets the stored bytes as the signed 16-bit
  member.\<close>

definition getInt :: "byte_order \<Rightarrow> MyMessage \<Rightarrow> i16" where
  "getInt bo this = get_iValue bo this"

text \<open>Modelled from the spec: \<open>getUInt\<close> reinterprets the stored bytes as the unsigned
  16-bit member.\<close>

definition getUInt :: "byte_order \<Rightarrow> MyMessage \<Rightarrow> u16" where
  "getUInt bo this = get_uiValue bo this"

text \<open>Modelled from the spec: \<open>getLong\<close> reinterprets the stored bytes as the signed 32-bit
  member.\<close>

definition getLong :: "byte_order \<Rightarrow> MyMessage \<Rightarrow> i32" where
  "getLong bo this = get_lValue bo this"

text \<open>Modelled from the spec: \<open>getULong\<close> reinterprets the stored bytes as the unsigned
  32-bit member.\<close>

definition getULong :: "byte_order \<Rightarrow> MyMessage \<Rightarrow> u32" where
  "getULong bo this = get_ulValue bo this"

subsection \<open>Hex serialization\<close>

text \<open>Modelled from the spec: the body of \<open>i2h\<close> is missing; section 4.4 says "A
  nibble-to-character helper maps 0-15 to '0'-'9','a'-'f'".\<close>

definition i2h :: "u8 \<Rightarrow> char" where
  "i2h i =
     (if i \<le> 9 then char_of (unat (of_char CHR ''0'' + i))
      else char_of (unat (of_char CHR ''a'' + i - 10)))"

text \<open>Modelled from the spec: the two-character group of one byte; section 4.4: "one group
  per byte, most-significant nibble first".\<close>

definition byte_hex :: "u8 \<Rightarrow> string" where
  "byte_hex b = [i2h (drop_bit 4 b), i2h (b AND 0x0F)]"

text \<open>Modelled from the spec: the bytes that are serialized; section 6 gives the wire layout
  (the seven header fields in the order of the structure, then the payload) and "exactly
  length payload bytes (not the full 25-byte capacity)".\<close>

definition message_bytes :: "MyMessage \<Rightarrow> u8 list" where
  "message_bytes this =
     [last_node this, sender this, destination this, version_length this,
      command_ack_payload this, type_m this, sensor this]
     @ read_at 0 (nat (miGetLength this)) (data this)"

text \<open>Modelled from the spec: the body of \<open>getStream\<close> is missing; section 4.4 says it
  "renders the entire message - header fields followed by payload bytes - as a sequence of
  two-hex-digit groups".  The result is the text written to the caller's buffer, without
  the terminating NUL.\<close>

definition getStream :: "MyMessage \<Rightarrow> string" where
  "getStream this = concat (map byte_hex (message_bytes this))"

text \<open>Modelled from the spec: the inverse of the nibble mapping; the header declares no
  decoder, section 4.4 says "The inverse (hex -> message) is implied by the same nibble
  mapping".  A character outside \<open>0-9a-f\<close> has no value.\<close>

definition h2i :: "char \<Rightarrow> u8 option" where
  "h2i c =
     (let k = (of_char c :: nat) in
      if of_char CHR ''0'' \<le> k \<and> k \<le> of_char CHR ''9'' then Some (of_nat (k - of_char CHR ''0''))
      else if of_char CHR ''a'' \<le> k \<and> k \<le> of_char CHR ''f''
        then Some (of_nat (k - of_char CHR ''a'' + 10))
      else None)"

text \<open>Modelled from the spec: hex decoding; section 4.4 says "each byte of the message is
  reconstructed from two consecutive hex characters".  A text of odd length or with a
  character that is no hex digit is rejected.\<close>

fun hex_decode :: "string \<Rightarrow> u8 list option" where
  "hex_decode [] = Some []"
| "hex_decode [c] = None"
| "hex_decode (hi # lo # cs) =
     (case (h2i hi, h2i lo, hex_decode cs) of
        (Some h, Some l, Some bs) \<Rightarrow> Some ((push_bit 4 h OR l) # bs)
      | _ \<Rightarrow> None)"

section \<open>Properties of the bit-field macros\<close>

lemma BIT_MASK_mask: "BIT_MASK len = mask len"
  by (simp add: BIT_MASK_def BIT_def mask_eq_exp_minus_1)

lemma BF_GET_take_bit: "BF_GET y start len = take_bit len (drop_bit start (uint y))"
  by (simp add: BF_GET_def BIT_MASK_mask take_bit_eq_mask)

lemma BF_GET_div_mod: "BF_GET y start len = (uint y div 2 ^ start) mod 2 ^ len"
  by (simp add: BF_GET_take_bit take_bit_eq_mod drop_bit_eq_div)

lemma BF_GET_bounds: "0 \<le> BF_GET y start len" "BF_GET y start len < 2 ^ len"
  by (simp_all add: BF_GET_take_bit)

text \<open>Bit \<open>n\<close> of the container after an insertion, for any offset and width.\<close>

lemma bit_BF_SET:
  "bit (BF_SET y x start len) n \<longleftrightarrow>
     n < 8 \<and> (if start \<le> n \<and> n < start + len then bit x (n - start) else bit y n)"
  by (auto simp add: BF_SET_def BF_MASK_def BF_PREP_def BIT_MASK_mask bit_simps)

lemma bit_BF_SET_field:
  assumes "start + len \<le> 8"
  shows "bit (BF_SET y x start len) n \<longleftrightarrow>
     (if start \<le> n \<and> n < start + len then bit x (n - start) else bit y n)"
  using assms by (auto simp add: bit_BF_SET dest: bit_imp_le_length)

lemma BF_GET_BF_SET:
  assumes "start + len \<le> 8"
  shows "BF_GET (BF_SET y v start len) start len = v mod 2 ^ len"
proof -
  have "take_bit len (drop_bit start (uint (BF_SET y v start len))) = take_bit len v"
    using assms by (auto simp add: bit_eq_iff bit_simps bit_BF_SET)
  then show ?thesis
    by (simp add: BF_GET_take_bit take_bit_eq_mod)
qed

text \<open>Inserting into one field does not change what is extracted from a field that does
  not overlap it.\<close>

lemma BF_GET_BF_SET_other:
  assumes "s2 + l2 \<le> s1 \<or> s1 + l1 \<le> s2"
  shows "BF_GET (BF_SET y v s1 l1) s2 l2 = BF_GET y s2 l2"
  using assms
  by (auto simp add: BF_GET_take_bit bit_eq_iff bit_simps bit_BF_SET dest: bit_imp_le_length)

text \<open>
  Claim C1.  For every container \<open>y\<close>, every field of offset \<open>start\<close> and width \<open>len\<close>
  inside the byte (\<open>start + len \<le> 8\<close>) and every field value \<open>v\<close> that fits the width
  (\<open>0 \<le> v < 2 ^ len\<close>; field values are unsigned), extracting the field after inserting
  \<open>v\<close> returns \<open>v\<close>.
\<close>

theorem BF_GET_BF_SET_roundtrip:
  assumes "0 \<le> v" and "v < 2 ^ len" and "start + len \<le> 8"
  shows "BF_GET (BF_SET y v start len) start len = v"
  using assms by (simp add: BF_GET_BF_SET)

theorem BF_GET_BF_SET_roundtrip_witness:
  "(0::int) \<le> 5 \<and> (5::int) < 2 ^ 5 \<and> (3::nat) + 5 \<le> 8
     \<and> BF_GET (BF_SET 0xA7 5 3 5) 3 5 = 5"
  using BF_GET_BF_SET_roundtrip [of 5 5 3 "0xA7"] by simp

text \<open>
  Claim C2.  For every container \<open>y\<close>, every field of offset \<open>start\<close> and width \<open>len\<close>
  inside the byte and every value \<open>v \<ge> 2 ^ len\<close>, inserting \<open>v\<close> and extracting the field
  returns \<open>v mod 2 ^ len\<close>: the value is truncated to its low-order bits, and the macros
  have no other branch.
\<close>

theorem BF_SET_truncates:
  assumes "start + len \<le> 8" and "2 ^ len \<le> v"
  shows "BF_GET (BF_SET y v start len) start len = v mod 2 ^ len"
  using assms by (simp add: BF_GET_BF_SET)

theorem BF_SET_truncates_witness:
  "(3::nat) + 5 \<le> 8 \<and> (2::int) ^ 5 \<le> 37 \<and> BF_GET (BF_SET 0xA7 37 3 5) 3 5 = 37 mod 2 ^ 5"
  using BF_SET_truncates [of 3 5 37 "0xA7"] by simp

text \<open>
  Claim C9.  Insertion overwrites: inserting \<open>v1\<close> and then \<open>v2\<close> into the same field
  gives the container that inserting \<open>v2\<close> alone gives; in particular inserting the same
  value twice is the same as inserting it once.
\<close>

theorem BF_SET_overwrites:
  "BF_SET (BF_SET y v1 start len) v2 start len = BF_SET y v2 start len
   \<and> BF_SET (BF_SET y v start len) v start len = BF_SET y v start len"
proof -
  have "BF_SET (BF_SET y a start len) b start len = BF_SET y b start len" for a b
    by (rule bit_word_eqI) (auto simp add: bit_BF_SET)
  then show ?thesis by simp
qed

text \<open>
  Claim C10.  Every extraction is bounded by the width of the field, whatever the container
  holds: \<open>BF_GET y start len\<close> lies in \<open>0 ..< 2 ^ len\<close>.  In particular the command is
  below 8 (as the macro computes it and as \<open>getCommand\<close> returns it), the length is below
  32, and the ack, request-ack and signed getters return 0 or 1.
\<close>

theorem BF_GET_bounded:
  "(0 \<le> BF_GET y start len \<and> BF_GET y start len < 2 ^ len)
   \<and> (0 \<le> mGetCommand m \<and> mGetCommand m < 8)
   \<and> unat (getCommand m) < 8
   \<and> (0 \<le> mGetLength m \<and> mGetLength m < 32)
   \<and> (mGetAck m = 0 \<or> mGetAck m = 1)
   \<and> (mGetRequestAck m = 0 \<or> mGetRequestAck m = 1)
   \<and> (mGetSigned m = 0 \<or> mGetSigned m = 1)"
proof -
  have cmd: "0 \<le> mGetCommand m \<and> mGetCommand m < 8"
    using BF_GET_bounds [of "command_ack_payload m" 0 3] by (simp add: mGetCommand_def)
  have "uint (getCommand m) = mGetCommand m"
    using cmd by (simp add: getCommand_def miGetCommand_def mGetCommand_def uint_word_of_int)
  with cmd have get: "unat (getCommand m) < 8"
    by (simp add: unat_eq_nat_uint nat_less_iff)
  have len: "0 \<le> mGetLength m \<and> mGetLength m < 32"
    using BF_GET_bounds [of "version_length m" 3 5] by (simp add: mGetLength_def)
  have bit1: "BF_GET b start 1 = 0 \<or> BF_GET b start 1 = 1" for b start
    using BF_GET_bounds [of b start 1] by auto
  show ?thesis
    using cmd get len bit1 BF_GET_bounds [of y start len]
    by (simp add: mGetAck_def mGetRequestAck_def mGetSigned_def)
qed

section \<open>The layout of the header bytes\<close>

lemma getter_layout:
  "mGetVersion m = uint (version_length m) div 2 ^ 0 mod 2 ^ 2"
  "mGetSigned m = uint (version_length m) div 2 ^ 2 mod 2 ^ 1"
  "mGetLength m = uint (version_length m) div 2 ^ 3 mod 2 ^ 5"
  "mGetCommand m = uint (command_ack_payload m) div 2 ^ 0 mod 2 ^ 3"
  "mGetRequestAck m = uint (command_ack_payload m) div 2 ^ 3 mod 2 ^ 1"
  "mGetAck m = uint (command_ack_payload m) div 2 ^ 4 mod 2 ^ 1"
  "mGetPayloadType m = uint (command_ack_payload m) div 2 ^ 5 mod 2 ^ 3"
  unfolding mGetVersion_def mGetSigned_def mGetLength_def mGetCommand_def mGetRequestAck_def
    mGetAck_def mGetPayloadType_def
  by (rule BF_GET_div_mod)+

lemma setter_layout:
  "bit (version_length (mSetVersion m v)) n
       = (if n < 2 then bit v n else bit (version_length m) n)"
  "bit (version_length (mSetSigned m v)) n
       = (if n = 2 then bit v 0 else bit (version_length m) n)"
  "bit (version_length (mSetLength m v)) n
       = (if 3 \<le> n \<and> n < 8 then bit v (n - 3) else bit (version_length m) n)"
  "bit (command_ack_payload (mSetCommand m v)) n
       = (if n < 3 then bit v n else bit (command_ack_payload m) n)"
  "bit (command_ack_payload (mSetRequestAck m v)) n
       = (if n = 3 then bit v 0 else bit (command_ack_payload m) n)"
  "bit (command_ack_payload (mSetAck m v)) n
       = (if n = 4 then bit v 0 else bit (command_ack_payload m) n)"
  "bit (command_ack_payload (mSetPayloadType m v)) n
       = (if 5 \<le> n \<and> n < 8 then bit v (n - 5) else bit (command_ack_payload m) n)"
  by (auto simp add: mSetVersion_def mSetSigned_def mSetLength_def
    mSetCommand_def mSetRequestAck_def mSetAck_def mSetPayloadType_def bit_BF_SET_field)

text \<open>
  Claim C6.  The getters and setters of the header sub-fields use this layout: in
  \<open>version_length\<close> the version is the 2 bits at offset 0, the signed flag the bit at
  offset 2 and the length the 5 bits at offset 3; in \<open>command_ack_payload\<close> the command is
  the 3 bits at offset 0, the request-ack flag the bit at offset 3, the ack flag the bit at
  offset 4 and the payload type the 3 bits at offset 5.  Each getter returns the container
  shifted right by the offset and reduced modulo \<open>2 ^ width\<close>; after each setter, bit \<open>n\<close>
  of the container is bit \<open>n - offset\<close> of the value when \<open>n\<close> lies in the field and the
  old bit \<open>n\<close> otherwise.
\<close>

theorem header_field_layout:
  "mGetVersion m = uint (version_length m) div 2 ^ 0 mod 2 ^ 2
   \<and> mGetSigned m = uint (version_length m) div 2 ^ 2 mod 2 ^ 1
   \<and> mGetLength m = uint (version_length m) div 2 ^ 3 mod 2 ^ 5
   \<and> mGetCommand m = uint (command_ack_payload m) div 2 ^ 0 mod 2 ^ 3
   \<and> mGetRequestAck m = uint (command_ack_payload m) div 2 ^ 3 mod 2 ^ 1
   \<and> mGetAck m = uint (command_ack_payload m) div 2 ^ 4 mod 2 ^ 1
   \<and> mGetPayloadType m = uint (command_ack_payload m) div 2 ^ 5 mod 2 ^ 3
   \<and> bit (version_length (mSetVersion m v)) n
       = (if n < 2 then bit v n else bit (version_length m) n)
   \<and> bit (version_length (mSetSigned m v)) n
       = (if n = 2 then bit v 0 else bit (version_length m) n)
   \<and> bit (version_length (mSetLength m v)) n
       = (if 3 \<le> n \<and> n < 8 then bit v (n - 3) else bit (version_length m) n)
   \<and> bit (command_ack_payload (mSetCommand m v)) n
       = (if n < 3 then bit v n else bit (command_ack_payload m) n)
   \<and> bit (command_ack_payload (mSetRequestAck m v)) n
       = (if n = 3 then bit v 0 else bit (command_ack_payload m) n)
   \<and> bit (command_ack_payload (mSetAck m v)) n
       = (if n = 4 then bit v 0 else bit (command_ack_payload m) n)
   \<and> bit (command_ack_payload (mSetPayloadType m v)) n
       = (if 5 \<le> n \<and> n < 8 then bit v (n - 5) else bit (command_ack_payload m) n)"
  by (intro conjI) (rule getter_layout setter_layout)+

section \<open>Payload writes\<close>

lemmas put_defs = put_bValue_def put_uiValue_def put_iValue_def put_ulValue_def put_lValue_def
  put_fValue_def put_fPrecision_def

lemmas set_defs = set_custom_def set_string_def set_float_def set_bool_def set_byte_def
  set_ulong_def set_long_def set_uint_def set_int_def

subsection \<open>The length field after a write\<close>

lemma mGetLength_miSetLength: "mGetLength (miSetLength l m) = l mod 32"
  by (simp add: mGetLength_def miSetLength_def BF_GET_BF_SET)

lemma mGetLength_fixed:
  "mGetLength (set_bool b m) = 1"
  "mGetLength (set_byte v8 m) = 1"
  "mGetLength (set_int bo s16 m) = 2"
  "mGetLength (set_uint bo u16 m) = 2"
  "mGetLength (set_long bo s32 m) = 4"
  "mGetLength (set_ulong bo u32 m) = 4"
  "mGetLength (set_float bo f d m) = 4"
  by (simp_all add: set_defs mGetLength_miSetLength)

lemma MAX_PAYLOAD_25: "MAX_PAYLOAD = 25"
  by (simp add: MAX_PAYLOAD_def MAX_MESSAGE_LENGTH_def HEADER_SIZE_def)

lemma mGetLength_miSetLength_small:
  assumes "n \<le> MAX_PAYLOAD"
  shows "mGetLength (miSetLength (int n) m) = int n"
proof -
  from assms have "int n < 32"
    by (simp add: MAX_PAYLOAD_25)
  then have "int n mod 32 = int n"
    by (intro mod_pos_pos_trivial) simp_all
  then show ?thesis
    unfolding mGetLength_miSetLength .
qed

lemma mGetLength_set_string:
  "mGetLength (set_string s m) = int (min (length s) MAX_PAYLOAD)"
  by (simp add: set_string_def Let_def mGetLength_miSetLength_small)

lemma mGetLength_set_custom:
  "mGetLength (set_custom p n m) = int (min (unat n) MAX_PAYLOAD)"
  by (simp add: set_custom_def Let_def mGetLength_miSetLength_small)

lemma mGetLength_le: "mGetLength m \<le> 31"
  using BF_GET_bounds [of "version_length m" 3 5] by (simp add: mGetLength_def)

text \<open>The characters that a string write stores are the ones the length field counts.\<close>

lemma set_string_stored:
  "read_at 0 (nat (mGetLength (set_string s m))) (data (set_string s m))
     = map of_char (take MAX_PAYLOAD s)"
proof -
  have "data (set_string s m)
          = write_at 0 (map of_char (take (min (length s) MAX_PAYLOAD) s) @ [0]) (data m)"
    by (simp add: set_string_def Let_def miSetLength_def miSetPayloadType_def)
  moreover have "take (min (length s) MAX_PAYLOAD) s = take MAX_PAYLOAD s"
    by (simp add: min_def)
  ultimately show ?thesis
    by (simp add: mGetLength_set_string read_at_def write_at_def)
qed

text \<open>A write that fits leaves the size of the region as it is.\<close>

lemma write_at_length:
  "off + length bs \<le> length region \<Longrightarrow> length (write_at off bs region) = length region"
  by (simp add: write_at_def)

text \<open>
  Claim C3, as stated, fails.  The length field has five bits and nothing checks the value
  written to it: \<open>mSetLength\<close> with 31 on the all-zero message gives a message whose
  length field reads 31, above \<open>MAX_PAYLOAD\<close>.
\<close>

theorem length_field_exceeds_MAX_PAYLOAD:
  "\<not> mGetLength (mSetLength
        \<lparr>last_node = 0, sender = 0, destination = 0, version_length = 0,
         command_ack_payload = 0, type_m = 0, sensor = 0, data = replicate 26 0\<rparr> 31)
      \<le> int MAX_PAYLOAD"
  by (simp add: mGetLength_def mSetLength_def BF_GET_BF_SET MAX_PAYLOAD_def
      MAX_MESSAGE_LENGTH_def HEADER_SIZE_def)

text \<open>
  Claim C3, amended.  After every typed \<open>set\<close> overload the length field is the byte width
  of the stored representation: 1 for bool and byte, 2 for the 16-bit forms, 4 for the
  32-bit forms and float, and for a string or custom payload the count of characters or
  bytes stored, which is the given count up to the capacity \<open>MAX_PAYLOAD\<close> (25).  After
  every typed \<open>set\<close> overload the length field is at most \<open>MAX_PAYLOAD\<close>.  A message
  state in general, such as one written by \<open>mSetLength\<close>, has a length field of at most
  31.
\<close>

theorem set_length_field:
  "mGetLength (set_bool b m) = 1
   \<and> mGetLength (set_byte v8 m) = 1
   \<and> mGetLength (set_int bo s16 m) = 2
   \<and> mGetLength (set_uint bo u16 m) = 2
   \<and> mGetLength (set_long bo s32 m) = 4
   \<and> mGetLength (set_ulong bo u32 m) = 4
   \<and> mGetLength (set_float bo f d m) = 4
   \<and> mGetLength (set_string s m) = int (min (length s) MAX_PAYLOAD)
   \<and> mGetLength (set_custom p n m) = int (min (unat n) MAX_PAYLOAD)
   \<and> mGetLength (set_bool b m) \<le> int MAX_PAYLOAD
   \<and> mGetLength (set_byte v8 m) \<le> int MAX_PAYLOAD
   \<and> mGetLength (set_int bo s16 m) \<le> int MAX_PAYLOAD
   \<and> mGetLength (set_uint bo u16 m) \<le> int MAX_PAYLOAD
   \<and> mGetLength (set_long bo s32 m) \<le> int MAX_PAYLOAD
   \<and> mGetLength (set_ulong bo u32 m) \<le> int MAX_PAYLOAD
   \<and> mGetLength (set_float bo f d m) \<le> int MAX_PAYLOAD
   \<and> mGetLength (set_string s m) \<le> int MAX_PAYLOAD
   \<and> mGetLength (set_custom p n m) \<le> int MAX_PAYLOAD
   \<and> mGetLength m \<le> 31"
proof -
  have fixed: "mGetLength (set_bool b m) = 1" "mGetLength (set_byte v8 m) = 1"
    "mGetLength (set_int bo s16 m) = 2" "mGetLength (set_uint bo u16 m) = 2"
    "mGetLength (set_long bo s32 m) = 4" "mGetLength (set_ulong bo u32 m) = 4"
    "mGetLength (set_float bo f d m) = 4"
    by (rule mGetLength_fixed)+
  have str: "mGetLength (set_string s m) = int (min (length s) MAX_PAYLOAD)"
    by (rule mGetLength_set_string)
  have cus: "mGetLength (set_custom p n m) = int (min (unat n) MAX_PAYLOAD)"
    by (rule mGetLength_set_custom)
  have bounds: "(1::int) \<le> int MAX_PAYLOAD" "(2::int) \<le> int MAX_PAYLOAD"
    "(4::int) \<le> int MAX_PAYLOAD"
    by (simp_all add: MAX_PAYLOAD_25)
  have "int (min (length s) MAX_PAYLOAD) \<le> int MAX_PAYLOAD"
    and "int (min (unat n) MAX_PAYLOAD) \<le> int MAX_PAYLOAD"
    by simp_all
  with fixed str cus bounds mGetLength_le [of m] show ?thesis
    by (simp only: simp_thms)
qed

text \<open>The theorem at a short text, at a text of 30 characters and at a custom payload.\<close>

theorem set_length_field_witness:
  "mGetLength (set_string ''hello'' MyMessage_default) = 5
   \<and> mGetLength (set_string ''abcdefghijklmnopqrstuvwxyz0123'' MyMessage_default) = 25
   \<and> mGetLength (set_custom [1, 2, 3] 3 MyMessage_default) = 3"
  using set_length_field [where s = "''hello''" and n = 3 and p = "[1, 2, 3]"
      and m = MyMessage_default]
    set_length_field [where s = "''abcdefghijklmnopqrstuvwxyz0123''"
      and m = MyMessage_default]
  by (simp add: MAX_PAYLOAD_25)

subsection \<open>Writing and reading back a typed value\<close>

lemma word_bytes_length: "length (word_bytes n w) = n"
  by (induction n arbitrary: w) simp_all

lemma bytes_word_word_bytes:
  "(bytes_word (word_bytes n w) :: 'a::len word) = take_bit (8 * n) w"
proof (induction n arbitrary: w)
  case 0
  show ?case by simp
next
  case (Suc n)
  have "ucast (ucast w :: u8) OR push_bit 8 (take_bit (8 * n) (drop_bit 8 w))
          = take_bit (8 * Suc n) w"
    by (rule bit_word_eqI) (auto simp add: bit_simps)
  then show ?case
    by (simp add: Suc)
qed

lemma native_bytes_length: "length (native_bytes bo n w) = n"
  by (cases bo) (simp_all add: native_bytes_def word_bytes_length)

lemma native_word_native_bytes:
  "(native_word bo (native_bytes bo n w) :: 'a::len word) = take_bit (8 * n) w"
  by (cases bo) (simp_all add: native_word_def native_bytes_def bytes_word_word_bytes)

lemma read_at_write_at:
  "length bs = n \<Longrightarrow> read_at 0 n (write_at 0 bs region) = bs"
  by (simp add: read_at_def write_at_def)

lemma data_miSetLength: "data (miSetLength l this) = data this"
  by (simp add: miSetLength_def)

lemma data_miSetPayloadType: "data (miSetPayloadType pt this) = data this"
  by (simp add: miSetPayloadType_def)

text \<open>A member that is as wide as the bytes written for it is read back unchanged, in
  either byte order.\<close>

lemma union_roundtrip:
  "LENGTH('a::len) \<le> 8 * n \<Longrightarrow>
   (native_word bo (read_at 0 n (write_at 0 (native_bytes bo n (w :: 'a word)) region))
      :: 'a word) = w"
  by (simp add: read_at_write_at native_bytes_length native_word_native_bytes
      take_bit_word_eq_self)

lemma getUInt_set_uint: "getUInt bo (set_uint bo v m) = v"
  by (simp add: getUInt_def set_uint_def get_uiValue_def put_uiValue_def
      data_miSetLength data_miSetPayloadType union_roundtrip)

lemma getInt_set_int: "getInt bo (set_int bo v m) = v"
  by (simp add: getInt_def set_int_def get_iValue_def put_iValue_def
      data_miSetLength data_miSetPayloadType union_roundtrip)

lemma getULong_set_ulong: "getULong bo (set_ulong bo v m) = v"
  by (simp add: getULong_def set_ulong_def get_ulValue_def put_ulValue_def
      data_miSetLength data_miSetPayloadType union_roundtrip)

lemma getLong_set_long: "getLong bo (set_long bo v m) = v"
  by (simp add: getLong_def set_long_def get_lValue_def put_lValue_def
      data_miSetLength data_miSetPayloadType union_roundtrip)

lemma getByte_set_byte: "getByte (set_byte v m) = v"
  by (simp add: getByte_def set_byte_def get_bValue_def put_bValue_def
      data_miSetLength data_miSetPayloadType read_at_write_at)

lemma getBool_set_bool: "getBool (set_bool v m) = v"
  by (simp add: getBool_def set_bool_def get_bValue_def put_bValue_def
      data_miSetLength data_miSetPayloadType read_at_write_at)

lemma getFloat_set_float: "getFloat bo (set_float bo v d m) = v"
proof -
  have "read_at 0 4 (write_at 4 [d] (write_at 0 (native_bytes bo 4 v) region))
          = native_bytes bo 4 v" for region
    by (simp add: read_at_def write_at_def native_bytes_length)
  then show ?thesis
    by (simp add: getFloat_def set_float_def get_fValue_def put_fValue_def put_fPrecision_def
      data_miSetLength data_miSetPayloadType native_word_native_bytes take_bit_word_eq_self)
qed

text \<open>The precision byte of a float payload is stored next to the value.\<close>

lemma get_fPrecision_set_float:
  "4 \<le> length (data m) \<Longrightarrow> get_fPrecision (set_float bo v d m) = d"
  by (simp add: set_float_def get_fPrecision_def put_fValue_def put_fPrecision_def
      data_miSetLength data_miSetPayloadType read_at_def write_at_def native_bytes_length)

text \<open>Every payload write leaves the payload region at its \<open>MAX_PAYLOAD + 1\<close> bytes.\<close>

lemma set_keeps_region:
  assumes "length (data m) = MAX_PAYLOAD + 1"
  shows "length (data (set_custom p n m)) = MAX_PAYLOAD + 1"
    and "length (data (set_string s m)) = MAX_PAYLOAD + 1"
    and "length (data (set_float bo f d m)) = MAX_PAYLOAD + 1"
    and "length (data (set_bool b m)) = MAX_PAYLOAD + 1"
    and "length (data (set_byte v8 m)) = MAX_PAYLOAD + 1"
    and "length (data (set_ulong bo u32 m)) = MAX_PAYLOAD + 1"
    and "length (data (set_long bo s32 m)) = MAX_PAYLOAD + 1"
    and "length (data (set_uint bo u16 m)) = MAX_PAYLOAD + 1"
    and "length (data (set_int bo s16 m)) = MAX_PAYLOAD + 1"
  using assms
  by (simp_all add: set_defs put_defs Let_def data_miSetLength data_miSetPayloadType
      write_at_length native_bytes_length MAX_PAYLOAD_25)

text \<open>
  Claim C5.  For each native payload type (bool, uint8, int16, uint16, int32, uint32, float),
  the matching \<open>set\<close> overload followed by the matching typed getter on the same message
  returns the value that was written, for every message, every value and either byte
  order.  A float comes back with the very bit pattern that was stored, hence within any
  decimal precision.
\<close>

theorem set_get_roundtrip:
  "getBool (set_bool b m) = b
   \<and> getByte (set_byte v8 m) = v8
   \<and> getInt bo (set_int bo s16 m) = s16
   \<and> getUInt bo (set_uint bo u16 m) = u16
   \<and> getLong bo (set_long bo s32 m) = s32
   \<and> getULong bo (set_ulong bo u32 m) = u32
   \<and> getFloat bo (set_float bo f d m) = f"
  by (simp only: getBool_set_bool getByte_set_byte getInt_set_int getUInt_set_uint
      getLong_set_long getULong_set_ulong getFloat_set_float simp_thms)

subsection \<open>What a payload write leaves alone\<close>

lemma miGetCommand_frame:
  "miGetCommand (miSetLength l m) = miGetCommand m"
  "miGetCommand (miSetPayloadType pt m) = miGetCommand m"
  "miGetCommand (m\<lparr>data := d\<rparr>) = miGetCommand m"
  by (simp_all add: miGetCommand_def miSetLength_def miSetPayloadType_def BF_GET_BF_SET_other)

lemma miGetAck_frame:
  "miGetAck (miSetLength l m) = miGetAck m"
  "miGetAck (miSetPayloadType pt m) = miGetAck m"
  "miGetAck (m\<lparr>data := d\<rparr>) = miGetAck m"
  by (simp_all add: miGetAck_def miSetLength_def miSetPayloadType_def BF_GET_BF_SET_other)

lemma miGetCommand_set:
  "miGetCommand (set_custom p n m) = miGetCommand m"
  "miGetCommand (set_string s m) = miGetCommand m"
  "miGetCommand (set_float bo f d m) = miGetCommand m"
  "miGetCommand (set_bool b m) = miGetCommand m"
  "miGetCommand (set_byte v8 m) = miGetCommand m"
  "miGetCommand (set_ulong bo v32 m) = miGetCommand m"
  "miGetCommand (set_long bo v32 m) = miGetCommand m"
  "miGetCommand (set_uint bo v16 m) = miGetCommand m"
  "miGetCommand (set_int bo v16 m) = miGetCommand m"
  by (simp_all add: set_defs put_defs Let_def miGetCommand_frame)

lemma miGetAck_set:
  "miGetAck (set_custom p n m) = miGetAck m"
  "miGetAck (set_string s m) = miGetAck m"
  "miGetAck (set_float bo f d m) = miGetAck m"
  "miGetAck (set_bool b m) = miGetAck m"
  "miGetAck (set_byte v8 m) = miGetAck m"
  "miGetAck (set_ulong bo v32 m) = miGetAck m"
  "miGetAck (set_long bo v32 m) = miGetAck m"
  "miGetAck (set_uint bo v16 m) = miGetAck m"
  "miGetAck (set_int bo v16 m) = miGetAck m"
  by (simp_all add: set_defs put_defs Let_def miGetAck_frame)

text \<open>
  Claim C7.  For every message and each of the nine \<open>set\<close> overloads (which write the
  payload bytes, the length field and the payload-type field), \<open>getCommand\<close> and \<open>isAck\<close>
  return after the write what they returned before it.
\<close>

theorem set_preserves_command_and_ack:
  "getCommand (set_custom p n m) = getCommand m \<and> isAck (set_custom p n m) = isAck m
   \<and> getCommand (set_string s m) = getCommand m \<and> isAck (set_string s m) = isAck m
   \<and> getCommand (set_float bo f d m) = getCommand m \<and> isAck (set_float bo f d m) = isAck m
   \<and> getCommand (set_bool b m) = getCommand m \<and> isAck (set_bool b m) = isAck m
   \<and> getCommand (set_byte v8 m) = getCommand m \<and> isAck (set_byte v8 m) = isAck m
   \<and> getCommand (set_ulong bo u32 m) = getCommand m \<and> isAck (set_ulong bo u32 m) = isAck m
   \<and> getCommand (set_long bo s32 m) = getCommand m \<and> isAck (set_long bo s32 m) = isAck m
   \<and> getCommand (set_uint bo u16 m) = getCommand m \<and> isAck (set_uint bo u16 m) = isAck m
   \<and> getCommand (set_int bo s16 m) = getCommand m \<and> isAck (set_int bo s16 m) = isAck m"
  by (simp add: getCommand_def isAck_def miGetCommand_set miGetAck_set)

section \<open>Constructors\<close>

text \<open>
  Claim C8.  The default constructor gives a message whose fields are all zero.  The
  constructor with \<open>(sensor, type)\<close> gives a message that holds these two values, whose
  command sub-field is \<open>C_SET\<close>, which is 1, and whose payload-type sub-field is
  \<open>P_STRING\<close>, which is 0.
\<close>

theorem constructors_initial_fields:
  "last_node MyMessage_default = 0 \<and> sender MyMessage_default = 0
   \<and> destination MyMessage_default = 0 \<and> version_length MyMessage_default = 0
   \<and> command_ack_payload MyMessage_default = 0 \<and> type_m MyMessage_default = 0
   \<and> sensor MyMessage_default = 0
   \<and> data MyMessage_default = replicate (MAX_PAYLOAD + 1) 0
   \<and> sensor (MyMessage_init s t) = s \<and> type_m (MyMessage_init s t) = t
   \<and> mGetCommand (MyMessage_init s t) = command_value C_SET \<and> command_value C_SET = 1
   \<and> getCommand (MyMessage_init s t) = 1
   \<and> mGetPayloadType (MyMessage_init s t) = payload_value P_STRING
   \<and> payload_value P_STRING = 0"
  by (simp add: MyMessage_default_def MyMessage_init_def miSetPayloadType_def mSetCommand_def
      mGetCommand_def getCommand_def miGetCommand_def mGetPayloadType_def
      BF_GET_BF_SET BF_GET_BF_SET_other)

section \<open>Hex serialization\<close>

lemma h2i_i2h:
  assumes "k < 16"
  shows "h2i (i2h k) = Some k"
proof -
  from assms have k: "unat k < 16" by (simp add: word_less_nat_alt)
  show ?thesis
  proof (cases "k \<le> 9")
    case True
    then have "unat k \<le> 9" by (simp add: word_le_nat_alt)
    then have "unat (48 + k) = 48 + unat k" by (simp add: unat_word_ariths)
    with True \<open>unat k \<le> 9\<close> show ?thesis
      by (simp add: h2i_def i2h_def Let_def)
  next
    case False
    then have "9 < unat k" by (simp add: word_le_nat_alt)
    with k have "unat (97 + k - 10) = 87 + unat k"
      by (simp add: unat_word_ariths unat_sub_if')
    with False k \<open>9 < unat k\<close> show ?thesis
      by (simp add: h2i_def i2h_def Let_def)
  qed
qed

lemma high_nibble_less: "drop_bit 4 (b :: u8) < 16"
proof -
  have "unat b < 2 ^ 8" using unsigned_less [of b, where ?'a = nat] by simp
  then have "unat b div 16 < 16" by simp
  then show ?thesis
    by (simp add: word_less_nat_alt drop_bit_eq_div unat_div)
qed

lemma low_nibble_less: "(b :: u8) AND 0x0F < 16"
proof -
  have "b AND 0x0F \<le> 0x0F" by (rule word_and_le1)
  then show ?thesis by (simp add: word_le_nat_alt word_less_nat_alt)
qed

lemma nibbles_join: "push_bit 4 (drop_bit 4 b) OR (b AND 0x0F) = (b :: u8)"
proof -
  have "b AND 0x0F = take_bit 4 b"
    by (simp add: take_bit_eq_mask mask_eq_exp_minus_1)
  moreover have "push_bit 4 (drop_bit 4 b) OR take_bit 4 b = b"
    by (rule bit_word_eqI) (auto simp add: bit_simps)
  ultimately show ?thesis by simp
qed

lemma hex_decode_byte_hex:
  "hex_decode (byte_hex b @ cs) = map_option ((#) b) (hex_decode cs)"
  using high_nibble_less [of b] low_nibble_less [of b] nibbles_join [of b]
  by (simp add: byte_hex_def h2i_i2h split: option.split)

lemma hex_decode_encode: "hex_decode (concat (map byte_hex bs)) = Some bs"
  by (induction bs) (simp_all add: hex_decode_byte_hex)

lemma length_hex: "length (concat (map byte_hex bs)) = 2 * length bs"
  by (induction bs) (simp_all add: byte_hex_def)

text \<open>
  Claim C4.  For every message, decoding the hex text that \<open>getStream\<close> produces gives back
  the serialized bytes of the message: two characters per byte, most significant nibble
  first.  These are the seven header bytes followed by \<open>L\<close> payload bytes, where \<open>L\<close> is
  the length field, that is \<open>7 + L\<close> bytes whenever the payload region holds \<open>L\<close> bytes.
\<close>

theorem hex_stream_roundtrip:
  "hex_decode (getStream m) = Some (message_bytes m)
   \<and> length (getStream m) = 2 * length (message_bytes m)
   \<and> (nat (miGetLength m) \<le> length (data m) \<longrightarrow>
        length (message_bytes m) = HEADER_SIZE + nat (miGetLength m))"
proof -
  have "hex_decode (getStream m) = Some (message_bytes m)"
    by (simp add: getStream_def hex_decode_encode)
  moreover have "length (getStream m) = 2 * length (message_bytes m)"
    by (simp add: getStream_def length_hex)
  moreover have "nat (miGetLength m) \<le> length (data m) \<longrightarrow>
        length (message_bytes m) = HEADER_SIZE + nat (miGetLength m)"
    by (simp add: message_bytes_def read_at_def HEADER_SIZE_def)
  ultimately show ?thesis by blast
qed

theorem hex_stream_roundtrip_witness:
  "nat (miGetLength (set_uint LittleEndian 1234 (MyMessage_init 3 5)))
     \<le> length (data (set_uint LittleEndian 1234 (MyMessage_init 3 5)))
   \<and> getStream (set_uint LittleEndian 1234 (MyMessage_init 3 5)) = ''00000010610503d204''
   \<and> length (message_bytes (set_uint LittleEndian 1234 (MyMessage_init 3 5))) = 7 + 2
   \<and> hex_decode ''00000010610503d204''
       = Some (message_bytes (set_uint LittleEndian 1234 (MyMessage_init 3 5)))"
proof -
  let ?m = "set_uint LittleEndian 1234 (MyMessage_init 3 5)"
  have len: "miGetLength ?m = 2"
    by (simp add: set_uint_def miGetLength_def miSetLength_def BF_GET_BF_SET)
  have dat: "length (data ?m) = 26"
    by (simp add: set_uint_def miSetLength_def miSetPayloadType_def put_uiValue_def
        MyMessage_init_def mSetCommand_def MyMessage_default_def write_at_def
        native_bytes_length MAX_PAYLOAD_def MAX_MESSAGE_LENGTH_def HEADER_SIZE_def)
  have stream: "getStream ?m = ''00000010610503d204''"
    by code_simp
  show ?thesis
    using hex_stream_roundtrip [of ?m] len dat stream by (simp add: HEADER_SIZE_def)
qed

end
